theory Spec2Isabelle
  imports Complex_Main
begin

section \<open>Numbers, errors and strings\<close>

text \<open>
  Python floats are read as real numbers: rounding, overflow and underflow are left out.
  What is kept is where an operation has no real value.  On Python floats a division by
  zero raises \<open>ZeroDivisionError\<close>.  On numpy values (the array \<open>fsolve\<close> hands to the
  residual, the \<open>float64\<close> it returns) nothing is raised: the result is \<open>inf\<close> or \<open>nan\<close>
  with a warning, and every sum, difference and product of such a value with a finite one
  is again \<open>inf\<close> or \<open>nan\<close>.  \<open>NonFinite\<close> stands for both.
\<close>

datatype error = ValueError | ZeroDivisionError | TypeError | NameError

datatype npfloat = Finite real | NonFinite

fun np_add :: "npfloat \<Rightarrow> npfloat \<Rightarrow> npfloat" where
  "np_add (Finite x) (Finite y) = Finite (x + y)"
| "np_add _ _ = NonFinite"

fun np_subtract :: "npfloat \<Rightarrow> npfloat \<Rightarrow> npfloat" where
  "np_subtract (Finite x) (Finite y) = Finite (x - y)"
| "np_subtract _ _ = NonFinite"

fun np_multiply :: "npfloat \<Rightarrow> npfloat \<Rightarrow> npfloat" where
  "np_multiply (Finite x) (Finite y) = Finite (x * y)"
| "np_multiply _ _ = NonFinite"

text \<open>\<open>x / y\<close> with a numpy divisor: \<open>x / 0\<close> is \<open>inf\<close> (\<open>nan\<close> for \<open>0 / 0\<close>).\<close>

definition np_true_divide :: "real \<Rightarrow> real \<Rightarrow> npfloat" where
  "np_true_divide x y = (if y = 0 then NonFinite else Finite (x / y))"

text \<open>
  \<open>x ** y\<close> with a numpy base: a zero base with a negative exponent gives \<open>inf\<close>, a
  negative base with an exponent that is not a whole number gives \<open>nan\<close>.
\<close>

definition np_power :: "real \<Rightarrow> real \<Rightarrow> npfloat" where
  "np_power x y =
     (if 0 < x then Finite (x powr y)
      else if x = 0 then (if y < 0 then NonFinite else if y = 0 then Finite 1 else Finite 0)
      else if frac y = 0 then Finite (x powi \<lfloor>y\<rfloor>)
      else NonFinite)"

text \<open>
  \<open>str.lower\<close> on the letters \<open>A\<close> to \<open>Z\<close>.  Every name the code compares with is
  ASCII, and no character outside ASCII that a \<open>char\<close> can hold lowers to an ASCII one.
\<close>

definition lower_char :: "char \<Rightarrow> char" where
  "lower_char ch =
     (case map_of (zip ''ABCDEFGHIJKLMNOPQRSTUVWXYZ'' ''abcdefghijklmnopqrstuvwxyz'') ch of
        Some l \<Rightarrow> l
      | None \<Rightarrow> ch)"

definition lower :: "string \<Rightarrow> string" where
  "lower s = map lower_char s"


section \<open>Constants (\<^verbatim>\<open>Plane_Design_Package/constants.py\<close>)\<close>

text \<open>
  The constants the atmosphere reads.  \<open>atmosphere.py\<close> imports them from
  \<open>PyPlanePackage.constants\<close>; the values are those of the constants file of
  \<open>Plane_Design_Package\<close>, decimal literals read as the rationals they write.
\<close>

definition earth_radius :: real where
  "earth_radius = 6371000"

definition temperature_variation_altitudem :: real where
  "temperature_variation_altitudem = - 0.0065"

definition gravity_zero :: real where
  "gravity_zero = 9.81"

definition R_air :: real where
  "R_air = 286.9"

definition gamma_air :: real where
  "gamma_air = 1.4"

definition density_zero :: real where
  "density_zero = 1.2237"

definition temperature_zero :: real where
  "temperature_zero = 288.16"

definition pressure_zero :: real where
  "pressure_zero = 101325"

definition altitude_junction :: real where
  "altitude_junction = 11000"

definition temperature_junction :: real where
  "temperature_junction = 216.66"


text \<open>
  \<open>compute_air_viscosity\<close> reads two constants more, \<open>viscosity_zero\<close> and
  \<open>sutherlands_constant\<close>.  They are in \<open>PyPlanePackage.constants\<close> only, which is
  not among the sources, so they are a parameter of everything that builds an
  \<open>Atmosphere\<close>.
\<close>

record viscosity_constants =
  viscosity_zero :: real
  sutherlands_constant :: real


section \<open>The atmosphere (\<^verbatim>\<open>PyPlanePackage/atmosphere/atmosphere.py\<close>)\<close>

text \<open>
  The attributes of an \<open>Atmosphere\<close> object are functions of its altitude alone, so
  each \<open>compute_\<close> method is a function of the altitude.  \<open>math.pow\<close> and \<open>math.sqrt\<close>
  are only ever applied to positive numbers here (lemma \<open>compute_temperature_ge\<close>), where
  \<open>powr\<close> and \<open>sqrt\<close> are what they compute: the four methods below never raise.
\<close>

definition compute_temperature :: "real \<Rightarrow> real" where
  "compute_temperature altitude =
     (if altitude < altitude_junction
      then temperature_zero + temperature_variation_altitudem * altitude
      else temperature_junction)"

definition compute_pressure :: "real \<Rightarrow> real" where
  "compute_pressure altitude =
     (if altitude < altitude_junction
      then pressure_zero * (compute_temperature altitude / temperature_zero) powr
             (- gravity_zero / (temperature_variation_altitudem * R_air))
      else (let pressure_junction =
                  pressure_zero * (temperature_junction / temperature_zero) powr
                    (- gravity_zero / (temperature_variation_altitudem * R_air))
            in pressure_junction *
                 exp (- gravity_zero / (R_air * compute_temperature altitude) *
                        (altitude - altitude_junction))))"

definition compute_density :: "real \<Rightarrow> real" where
  "compute_density altitude =
     (if altitude < altitude_junction
      then density_zero * (compute_temperature altitude / temperature_zero) powr
             (- gravity_zero / (temperature_variation_altitudem * R_air) - 1)
      else (let density_junction =
                  density_zero * (temperature_junction / temperature_zero) powr
                    (- gravity_zero / (temperature_variation_altitudem * R_air) - 1)
            in density_junction *
                 exp (- gravity_zero / (R_air * compute_temperature altitude) *
                        (altitude - altitude_junction))))"

definition compute_sound_speed :: "real \<Rightarrow> real" where
  "compute_sound_speed altitude = sqrt (gamma_air * R_air * compute_temperature altitude)"

text \<open>
  The last two methods divide Python floats, and a zero divisor raises: the temperature
  plus Sutherland's constant in the viscosity, the earth radius plus the altitude in the
  gravity.  The power \<open>3 / 2\<close> is of a positive number.
\<close>

definition compute_air_viscosity :: "viscosity_constants \<Rightarrow> real \<Rightarrow> error + real" where
  "compute_air_viscosity K altitude =
     (let mu_0 = viscosity_zero K;
          T_0 = temperature_zero;
          T = compute_temperature altitude in
      if T + sutherlands_constant K = 0 then Inl ZeroDivisionError
      else Inr (mu_0 * (T / T_0) powr (3 / 2) * (T_0 + sutherlands_constant K) /
                  (T + sutherlands_constant K)))"

definition compute_gravity :: "real \<Rightarrow> error + real" where
  "compute_gravity altitude =
     (if earth_radius + altitude = 0 then Inl ZeroDivisionError
      else Inr (gravity_zero * (earth_radius / (earth_radius + altitude)) ^ 2))"

text \<open>
  The object and its constructor.  The attributes carry the prefix \<open>atm_\<close>, their own
  names being those of parameters.  The constructor computes them in the order of the
  source, and an exception in one of them ends it.
\<close>

record atmosphere =
  atm_altitude :: real
  atm_temperature_K :: real
  atm_temperature_C :: real
  atm_pressure :: real
  atm_density :: real
  atm_sound_speed :: real
  atm_viscosity :: real
  atm_gravity :: real

definition Atmosphere :: "viscosity_constants \<Rightarrow> real \<Rightarrow> error + atmosphere" where
  "Atmosphere K altitude =
     (let temperature_K = compute_temperature altitude;
          temperature_C = temperature_K - 273.15;
          pressure = compute_pressure altitude;
          density = compute_density altitude;
          sound_speed = compute_sound_speed altitude in
      case compute_air_viscosity K altitude of
        Inl e \<Rightarrow> Inl e
      | Inr viscosity \<Rightarrow>
          (case compute_gravity altitude of
             Inl e \<Rightarrow> Inl e
           | Inr gravity \<Rightarrow>
               Inr \<lparr>atm_altitude = altitude, atm_temperature_K = temperature_K,
                    atm_temperature_C = temperature_C, atm_pressure = pressure,
                    atm_density = density, atm_sound_speed = sound_speed,
                    atm_viscosity = viscosity, atm_gravity = gravity\<rparr>))"


section \<open>The weight fractions (\<^verbatim>\<open>PyPlanePackage/weight/weight.py\<close>)\<close>

definition fclimb :: "real \<Rightarrow> real" where
  "fclimb M_cruise =
     (if M_cruise < 1 then 1 - 0.04 * M_cruise else 0.96 - 0.03 * (M_cruise - 1))"

definition finesse :: "real \<Rightarrow> real \<Rightarrow> real" where
  "finesse Mach A = (if Mach < 1 then A + 10 else 11 * Mach powr (- 0.5))"

text \<open>
  \<open>vitesse\<close> builds \<open>Atmosphere(altitude)\<close> from the altitude as it is passed in and
  reads the speed of sound of the object; the constructor may raise.
\<close>

definition vitesse :: "viscosity_constants \<Rightarrow> real \<Rightarrow> real \<Rightarrow> error + real" where
  "vitesse K mach altitude =
     (case Atmosphere K altitude of
        Inl e \<Rightarrow> Inl e
      | Inr atmosphere \<Rightarrow> Inr (mach * atm_sound_speed atmosphere))"

text \<open>
  The exponents are quotients of Python floats: a zero divisor raises.  \<open>np.exp\<close> of a
  real number is positive, so \<open>1 / flinv\<close> and \<open>1 / fcinv\<close> are defined.
\<close>

definition floiter :: "real \<Rightarrow> real \<Rightarrow> real \<Rightarrow> real \<Rightarrow> error + real" where
  "floiter M_cruise T_loiter TSFC A =
     (let ldmax = finesse M_cruise A in
      if ldmax * 60 = 0 then Inl ZeroDivisionError
      else (let flinv = exp (T_loiter * TSFC / (ldmax * 60)) in Inr (1 / flinv)))"

definition fcruise ::
  "viscosity_constants \<Rightarrow> real \<Rightarrow> real \<Rightarrow> real \<Rightarrow> real \<Rightarrow> real \<Rightarrow> error + real" where
  "fcruise K M_cruise H_cruise A Range' TSFC =
     (let ldmax = finesse M_cruise A;
          ld = 0.866 * ldmax in
      case vitesse K M_cruise H_cruise of
        Inl e \<Rightarrow> Inl e
      | Inr vc \<Rightarrow>
          if vc * ld * 3600 = 0 then Inl ZeroDivisionError
          else (let fcinv = exp (Range' * TSFC * 6080 / (vc * ld * 3600)) in Inr (1 / fcinv)))"

text \<open>
  The \<open>if\<close>/\<open>elif\<close> chain of \<open>structure_factor\<close>, on the lowered type name: the
  regression pair \<open>(a, c)\<close>, or the \<open>ValueError('Unknown aircraft type')\<close> of its last
  branch.  The chain is the same text in \<open>weight.py\<close> and in both \<open>plane_mass.py\<close>.
\<close>

definition structure_constants :: "string \<Rightarrow> error + real \<times> real" where
  "structure_constants type_lower =
     (if type_lower = ''glider'' then Inr (0.86, - 0.05)
      else if type_lower = ''powered-glider'' then Inr (0.91, - 0.05)
      else if type_lower = ''indiv-constr'' then Inr (1.19, - 0.09)
      else if type_lower = ''indiv-constr(comp)'' then Inr (1.15, - 0.09)
      else if type_lower = ''gen-aviation(1eng)'' then Inr (2.36, - 0.18)
      else if type_lower = ''gen-aviation(2eng)'' then Inr (1.51, - 0.10)
      else if type_lower = ''agricultural-plane'' then Inr (0.74, - 0.03)
      else if type_lower = ''turboprop(2eng)'' then Inr (0.96, - 0.05)
      else if type_lower = ''seaplane'' then Inr (1.09, - 0.05)
      else if type_lower = ''training-jet'' then Inr (1.59, - 0.10)
      else if type_lower = ''combat-jet'' then Inr (2.34, - 0.13)
      else if type_lower = ''transport-jet'' then Inr (1.02, - 0.06)
      else if type_lower = ''bomber'' then Inr (0.93, - 0.07)
      else Inl ValueError)"

text \<open>\<open>sf = a * Wto ** c\<close>, with \<open>Wto\<close> a numpy value at every call.\<close>

definition structure_factor :: "string \<Rightarrow> real \<Rightarrow> error + npfloat" where
  "structure_factor Type Wto =
     (case structure_constants (lower Type) of
        Inl e \<Rightarrow> Inl e
      | Inr (a, c) \<Rightarrow> Inr (np_multiply (Finite a) (np_power Wto c)))"

text \<open>
  The residual.  Python evaluates the operands from left to right: the quotient, then
  \<open>structure_factor\<close>, \<open>fclimb\<close>, \<open>fcruise\<close> and \<open>floiter\<close>; the first that raises
  ends the evaluation.  \<open>fland\<close>, \<open>Fuel_res\<close> and \<open>Fuel_trap\<close> are not used.
\<close>

definition fpoids ::
  "viscosity_constants \<Rightarrow> real \<Rightarrow> real \<Rightarrow> string \<Rightarrow> real \<Rightarrow> real \<Rightarrow> real \<Rightarrow> real \<Rightarrow> real \<Rightarrow> real \<Rightarrow> real \<Rightarrow> real
     \<Rightarrow> error + npfloat" where
  "fpoids K Wto Range' Type Wpayload TSFC T_loiter A Fuel_res Fuel_trap M_cruise H_cruise =
     (let fdec = 0.975;
          fland = (0.975 :: real);
          quotient = np_true_divide Wpayload Wto in
      case structure_factor Type Wto of
        Inl e \<Rightarrow> Inl e
      | Inr sf \<Rightarrow>
          (let fc = fclimb M_cruise in
           case fcruise K M_cruise H_cruise A Range' TSFC of
             Inl e \<Rightarrow> Inl e
           | Inr fcr \<Rightarrow>
               (case floiter M_cruise T_loiter TSFC A of
                  Inl e \<Rightarrow> Inl e
                | Inr fl \<Rightarrow>
                    Inr (np_subtract (Finite 1)
                           (np_add (np_add quotient sf)
                              (Finite ((1 - fdec * fc) * (1 + fcr * fl))))))))"


section \<open>The solver (\<^verbatim>\<open>Weight.iterate_take_off_weight\<close>)\<close>

text \<open>
  \<open>scipy.optimize.fsolve\<close> is a library outside the repository.  Its iteration is the
  parameter \<open>hybrd\<close>: from the residual, the initial guess and \<open>xtol\<close> it gives the final
  iterate, a finite float, about which nothing is assumed (without \<open>full_output\<close> a
  failure to converge is a warning, and the last iterate is returned all the same).
  What is used of \<open>fsolve\<close> is that it evaluates the residual at the initial guess before
  it iterates, so that an exception raised there reaches the caller.  No later evaluation
  can raise when the first did not: whether \<open>fpoids\<close> raises does not depend on \<open>Wto\<close>
  (lemma \<open>fpoids_error_independent\<close>).
\<close>

type_synonym root_finder = "(real \<Rightarrow> error + npfloat) \<Rightarrow> real \<Rightarrow> real \<Rightarrow> real"

definition fsolve :: "root_finder \<Rightarrow> (real \<Rightarrow> error + npfloat) \<Rightarrow> real \<Rightarrow> real \<Rightarrow> error + real" where
  "fsolve hybrd func x0 xtol =
     (case func x0 of
        Inl e \<Rightarrow> Inl e
      | Inr _ \<Rightarrow> Inr (hybrd func x0 xtol))"

definition iterate_take_off_weight ::
  "viscosity_constants \<Rightarrow> root_finder \<Rightarrow> string \<Rightarrow> real \<Rightarrow> real \<Rightarrow> real \<Rightarrow> real \<Rightarrow> real \<Rightarrow> real \<Rightarrow> real \<Rightarrow> real \<Rightarrow> real
     \<Rightarrow> error + real \<times> npfloat \<times> npfloat" where
  "iterate_take_off_weight K hybrd Type M_cruise H_cruise A TSFC T_loiter Fuel_res Fuel_trap
       Wpayload flight_range =
     (case fsolve hybrd
             (\<lambda>Wto. fpoids K Wto flight_range Type Wpayload TSFC T_loiter A Fuel_res Fuel_trap
                       M_cruise H_cruise)
             Wpayload 0.000001 of
        Inl e \<Rightarrow> Inl e
      | Inr Wto \<Rightarrow>
          (case structure_factor Type Wto of
             Inl e \<Rightarrow> Inl e
           | Inr Sfactor \<Rightarrow>
               (let Wempty = np_multiply Sfactor (Finite Wto);
                    Wfuel = np_subtract (np_subtract (Finite Wto) Wempty) (Finite Wpayload)
                in Inr (Wto, Wempty, Wfuel))))"


section \<open>The scripts (\<^verbatim>\<open>plane/plane_mass.py\<close>, \<^verbatim>\<open>Plane/plane_mass.py\<close>)\<close>

text \<open>
  Both scripts define \<open>itertow\<close> and its helpers as module functions, assign the sample
  mission to module globals and call \<open>itertow\<close> on it, all at load time.  Their
  \<open>fpoids\<close> takes no Mach number or altitude: it reads the globals \<open>M_cruise\<close> and
  \<open>H_cruise\<close>.  \<open>structure_factor\<close>, \<open>fclimb\<close> and \<open>finesse\<close> are the same text
  as in \<open>weight.py\<close>; \<open>floiter\<close> has the same body and one parameter more.
\<close>

definition plane_mass_M_cruise :: real where
  "plane_mass_M_cruise = 0.82"

definition plane_mass_H_cruise :: real where
  "plane_mass_H_cruise = 40000"

definition plane_mass_floiter :: "real \<Rightarrow> real \<Rightarrow> real \<Rightarrow> real \<Rightarrow> real \<Rightarrow> error + real" where
  "plane_mass_floiter M_cruise H_cruise T_loiter TSFC A =
     (let ldmax = finesse M_cruise A in
      if ldmax * 60 = 0 then Inl ZeroDivisionError
      else (let flinv = exp (T_loiter * TSFC / (ldmax * 60)) in Inr (1 / flinv)))"

text \<open>
  In \<open>PyPlanePackage/plane/plane_mass.py\<close>, \<open>fcruise\<close> calls \<open>vitesse(M_cruise)\<close>
  while \<open>vitesse\<close> takes two arguments: the call raises \<open>TypeError\<close>.
\<close>

definition plane_mass_fcruise :: "real \<Rightarrow> real \<Rightarrow> real \<Rightarrow> real \<Rightarrow> real \<Rightarrow> error + real" where
  "plane_mass_fcruise M_cruise H_cruise A Range' TSFC =
     (let ldmax = finesse M_cruise A;
          ld = 0.866 * ldmax
      in Inl TypeError)"

text \<open>
  In \<open>Plane_Design_Package/Plane/plane_mass.py\<close>, \<open>fcruise\<close> calls
  \<open>vitesse(M_cruise, sound_speed)\<close>, and no \<open>sound_speed\<close> is defined: evaluating the
  argument raises \<open>NameError\<close>.
\<close>

definition Plane_fcruise :: "real \<Rightarrow> real \<Rightarrow> real \<Rightarrow> real \<Rightarrow> real \<Rightarrow> error + real" where
  "Plane_fcruise M_cruise H_cruise A Range' TSFC =
     (let ldmax = finesse M_cruise A;
          ld = 0.866 * ldmax
      in Inl NameError)"

text \<open>
  The residual of the scripts, with the \<open>fcruise\<close> of the script as a parameter: the
  rest of the two texts is the same.
\<close>

definition plane_mass_fpoids ::
  "(real \<Rightarrow> real \<Rightarrow> real \<Rightarrow> real \<Rightarrow> real \<Rightarrow> error + real)
     \<Rightarrow> real \<Rightarrow> real \<Rightarrow> string \<Rightarrow> real \<Rightarrow> real \<Rightarrow> real \<Rightarrow> real \<Rightarrow> real \<Rightarrow> real
     \<Rightarrow> error + npfloat" where
  "plane_mass_fpoids fcruise' Wto Range' Type Wpayload TSFC T_loiter A Fuel_res Fuel_trap =
     (let fdec = 0.975;
          fland = (0.975 :: real);
          quotient = np_true_divide Wpayload Wto in
      case structure_factor Type Wto of
        Inl e \<Rightarrow> Inl e
      | Inr sf \<Rightarrow>
          (let fc = fclimb plane_mass_M_cruise in
           case fcruise' plane_mass_M_cruise plane_mass_H_cruise A Range' TSFC of
             Inl e \<Rightarrow> Inl e
           | Inr fcr \<Rightarrow>
               (case plane_mass_floiter plane_mass_M_cruise plane_mass_H_cruise T_loiter TSFC A of
                  Inl e \<Rightarrow> Inl e
                | Inr fl \<Rightarrow>
                    Inr (np_subtract (Finite 1)
                           (np_add (np_add quotient sf)
                              (Finite ((1 - fdec * fc) * (1 + fcr * fl))))))))"

text \<open>
  \<open>itertow\<close> returns nothing and prints four lines after the weights are computed.  Its
  value here is what it has printed (label and number of each line) and the exception
  that ended it, if any.
\<close>

definition itertow ::
  "(real \<Rightarrow> real \<Rightarrow> real \<Rightarrow> real \<Rightarrow> real \<Rightarrow> error + real) \<Rightarrow> root_finder
     \<Rightarrow> string \<Rightarrow> real \<Rightarrow> real \<Rightarrow> real \<Rightarrow> real \<Rightarrow> real \<Rightarrow> real \<Rightarrow> real \<Rightarrow> real \<Rightarrow> real
     \<Rightarrow> (string \<times> npfloat) list \<times> error option" where
  "itertow fcruise' hybrd Type M_cruise H_cruise A TSFC T_loiter Fuel_res Fuel_trap Wpayload Range' =
     (case fsolve hybrd
             (\<lambda>Wto. plane_mass_fpoids fcruise' Wto Range' Type Wpayload TSFC T_loiter A
                       Fuel_res Fuel_trap)
             Wpayload 0.000001 of
        Inl e \<Rightarrow> ([], Some e)
      | Inr Wto \<Rightarrow>
          (case structure_factor Type Wto of
             Inl e \<Rightarrow> ([], Some e)
           | Inr Sfactor \<Rightarrow>
               (let Wempty = np_multiply Sfactor (Finite Wto);
                    Wfuel = np_subtract (np_subtract (Finite Wto) Wempty) (Finite Wpayload)
                in ([(''Wto='', Finite Wto), (''Wempty='', Wempty), (''Wfuel='', Wfuel),
                     (''Structure factor'', Sfactor)], None))))"

text \<open>
  Loading a script: the imports (taken to succeed), the definitions, the globals, and
  the call of \<open>itertow\<close> on the globals, whose type is \<open>'jet-transport'\<close>.
\<close>

definition plane_mass_load :: "root_finder \<Rightarrow> (string \<times> npfloat) list \<times> error option" where
  "plane_mass_load hybrd =
     itertow plane_mass_fcruise hybrd ''jet-transport'' plane_mass_M_cruise plane_mass_H_cruise
       10.0 0.45 45 0.05 0.01 30750 3500"

definition Plane_load :: "root_finder \<Rightarrow> (string \<times> npfloat) list \<times> error option" where
  "Plane_load hybrd =
     itertow Plane_fcruise hybrd ''jet-transport'' plane_mass_M_cruise plane_mass_H_cruise
       10.0 0.45 45 0.05 0.01 30750 3500"


section \<open>The atmosphere at and across the junction\<close>

lemmas constants_defs =
  temperature_variation_altitudem_def gravity_zero_def R_air_def gamma_air_def density_zero_def
  temperature_zero_def pressure_zero_def altitude_junction_def temperature_junction_def

lemma compute_temperature_ge: "temperature_junction \<le> compute_temperature altitude"
  by (simp add: compute_temperature_def constants_defs)

lemma compute_temperature_pos: "0 < compute_temperature altitude"
  using compute_temperature_ge [of altitude] by (simp add: temperature_junction_def)

lemma troposphere_limit:
  "temperature_zero + temperature_variation_altitudem * altitude_junction = temperature_junction"
  by (simp add: constants_defs)

text \<open>
  Since the troposphere formulas take the junction values at the junction, each quantity
  can be written with \<open>\<le>\<close> in place of the code's \<open><\<close>.
\<close>

lemma compute_temperature_alt:
  "compute_temperature altitude =
     (if altitude \<le> altitude_junction
      then temperature_zero + temperature_variation_altitudem * altitude
      else temperature_junction)"
  using troposphere_limit by (auto simp add: compute_temperature_def)

lemma compute_pressure_alt:
  "compute_pressure altitude =
     (if altitude \<le> altitude_junction
      then pressure_zero *
             ((temperature_zero + temperature_variation_altitudem * altitude) / temperature_zero) powr
             (- gravity_zero / (temperature_variation_altitudem * R_air))
      else pressure_zero * (temperature_junction / temperature_zero) powr
             (- gravity_zero / (temperature_variation_altitudem * R_air)) *
           exp (- gravity_zero / (R_air * temperature_junction) * (altitude - altitude_junction)))"
  using troposphere_limit by (auto simp add: compute_pressure_def compute_temperature_def Let_def)

lemma compute_density_alt:
  "compute_density altitude =
     (if altitude \<le> altitude_junction
      then density_zero *
             ((temperature_zero + temperature_variation_altitudem * altitude) / temperature_zero) powr
             (- gravity_zero / (temperature_variation_altitudem * R_air) - 1)
      else density_zero * (temperature_junction / temperature_zero) powr
             (- gravity_zero / (temperature_variation_altitudem * R_air) - 1) *
           exp (- gravity_zero / (R_air * temperature_junction) * (altitude - altitude_junction)))"
  using troposphere_limit by (auto simp add: compute_density_def compute_temperature_def Let_def)

lemma isCont_compute_temperature: "isCont compute_temperature altitude_junction"
proof -
  have "isCont (\<lambda>altitude. if altitude \<le> altitude_junction
      then temperature_zero + temperature_variation_altitudem * altitude
      else temperature_junction) altitude_junction"
    by (rule isCont_If_ge) (auto intro!: continuous_intros tendsto_eq_intros simp: troposphere_limit)
  moreover have "compute_temperature = (\<lambda>altitude. if altitude \<le> altitude_junction
      then temperature_zero + temperature_variation_altitudem * altitude
      else temperature_junction)"
    by (rule ext) (rule compute_temperature_alt)
  ultimately show ?thesis by simp
qed

lemma junction_base_nonzero:
  "(temperature_zero + temperature_variation_altitudem * altitude_junction) / temperature_zero \<noteq> 0"
  by (simp add: constants_defs)

text \<open>
  Pressure and density have one shape: an amplitude \<open>c0\<close> times a power \<open>e\<close> of the
  temperature ratio below the junction, and the junction value times a decaying
  exponential above it.
\<close>

lemma layer_profile_isCont:
  fixes c0 e :: real
  shows "isCont (\<lambda>altitude. if altitude \<le> altitude_junction
      then c0 * ((temperature_zero + temperature_variation_altitudem * altitude) / temperature_zero) powr e
      else c0 * (temperature_junction / temperature_zero) powr e *
           exp (- gravity_zero / (R_air * temperature_junction) * (altitude - altitude_junction)))
    altitude_junction"
  using junction_base_nonzero
  by (intro isCont_If_ge)
    (auto intro!: continuous_intros tendsto_eq_intros simp: troposphere_limit R_air_def)

lemma isCont_compute_pressure: "isCont compute_pressure altitude_junction"
proof -
  have eq: "compute_pressure = (\<lambda>altitude. if altitude \<le> altitude_junction
      then pressure_zero *
             ((temperature_zero + temperature_variation_altitudem * altitude) / temperature_zero) powr
             (- gravity_zero / (temperature_variation_altitudem * R_air))
      else pressure_zero * (temperature_junction / temperature_zero) powr
             (- gravity_zero / (temperature_variation_altitudem * R_air)) *
           exp (- gravity_zero / (R_air * temperature_junction) * (altitude - altitude_junction)))"
    by (rule ext) (rule compute_pressure_alt)
  show ?thesis by (subst eq) (rule layer_profile_isCont)
qed

lemma isCont_compute_density: "isCont compute_density altitude_junction"
proof -
  have eq: "compute_density = (\<lambda>altitude. if altitude \<le> altitude_junction
      then density_zero *
             ((temperature_zero + temperature_variation_altitudem * altitude) / temperature_zero) powr
             (- gravity_zero / (temperature_variation_altitudem * R_air) - 1)
      else density_zero * (temperature_junction / temperature_zero) powr
             (- gravity_zero / (temperature_variation_altitudem * R_air) - 1) *
           exp (- gravity_zero / (R_air * temperature_junction) * (altitude - altitude_junction)))"
    by (rule ext) (rule compute_density_alt)
  show ?thesis by (subst eq) (rule layer_profile_isCont)
qed

lemma layer_profile_decreasing:
  fixes c0 e h1 h2 :: real and prof :: "real \<Rightarrow> real"
  defines "prof \<equiv> \<lambda>altitude. if altitude \<le> altitude_junction
      then c0 * ((temperature_zero + temperature_variation_altitudem * altitude) / temperature_zero) powr e
      else c0 * (temperature_junction / temperature_zero) powr e *
           exp (- gravity_zero / (R_air * temperature_junction) * (altitude - altitude_junction))"
  assumes c0: "0 < c0" and e: "0 < e" and h: "h1 < h2"
  shows "prof h2 < prof h1"
proof -
  let ?b = "\<lambda>h. (temperature_zero + temperature_variation_altitudem * h) / temperature_zero"
  have b_junction: "?b altitude_junction = temperature_junction / temperature_zero"
    by (simp add: troposphere_limit)
  have b_pos: "0 < ?b x" if "x \<le> altitude_junction" for x
    using that by (simp add: constants_defs)
  have b_less: "?b y < ?b x" if "x < y" for x y
    using that by (simp add: constants_defs divide_strict_right_mono)
  have low: "c0 * ?b y powr e < c0 * ?b x powr e" if "x < y" "y \<le> altitude_junction" for x y
  proof -
    have "?b y powr e < ?b x powr e"
      using e b_pos [OF that(2)] b_less [OF that(1)] by (intro powr_less_mono2) auto
    then show ?thesis using c0 by simp
  qed
  have amp: "0 < c0 * (temperature_junction / temperature_zero) powr e"
    using c0 by (simp add: constants_defs)
  have rate: "- gravity_zero / (R_air * temperature_junction) < 0"
    by (simp add: constants_defs)
  have high: "c0 * (temperature_junction / temperature_zero) powr e *
          exp (- gravity_zero / (R_air * temperature_junction) * (y - altitude_junction))
        < c0 * (temperature_junction / temperature_zero) powr e *
          exp (- gravity_zero / (R_air * temperature_junction) * (x - altitude_junction))"
    if "x < y" for x y
  proof -
    have "- gravity_zero / (R_air * temperature_junction) * (y - altitude_junction)
        < - gravity_zero / (R_air * temperature_junction) * (x - altitude_junction)"
      by (rule mult_strict_left_mono_neg) (use that rate in simp_all)
    then have "exp (- gravity_zero / (R_air * temperature_junction) * (y - altitude_junction))
        < exp (- gravity_zero / (R_air * temperature_junction) * (x - altitude_junction))"
      by (simp only: exp_less_cancel_iff)
    then show ?thesis using amp by (rule mult_strict_left_mono)
  qed
  consider "h2 \<le> altitude_junction" | "h1 \<le> altitude_junction" "altitude_junction < h2"
    | "altitude_junction < h1"
    by linarith
  then show ?thesis
  proof cases
    case 1
    then show ?thesis using h low [of h1 h2] by (simp add: prof_def)
  next
    case 2
    have "prof h2 < c0 * (temperature_junction / temperature_zero) powr e *
          exp (- gravity_zero / (R_air * temperature_junction) * (altitude_junction - altitude_junction))"
      using 2 high [of altitude_junction h2] by (simp add: prof_def)
    also have "\<dots> = c0 * ?b altitude_junction powr e"
      by (simp add: b_junction)
    also have "\<dots> \<le> prof h1"
    proof (cases "h1 = altitude_junction")
      case True
      then show ?thesis by (simp add: prof_def)
    next
      case False
      then have "h1 < altitude_junction" using 2 by simp
      from low [OF this] show ?thesis using 2 by (simp add: prof_def)
    qed
    finally show ?thesis .
  next
    case 3
    then show ?thesis using h high [of h1 h2] by (simp add: prof_def)
  qed
qed

text \<open>
  C6.  The atmosphere is continuous at the junction of 11000 m: temperature, pressure and
  density are continuous functions of the altitude there, so the troposphere formulas
  tend to the stratosphere values as the altitude tends to the junction.  In particular
  the lapse formula gives \<open>288.16 + (-0.0065) * 11000 = 216.66\<close>, the junction
  temperature, and the exponential factor of the stratosphere branch is 1 at the junction.
\<close>

theorem atmosphere_continuous_at_junction:
  "altitude_junction = 11000 \<and>
   isCont compute_temperature altitude_junction \<and>
   isCont compute_pressure altitude_junction \<and>
   isCont compute_density altitude_junction \<and>
   ((\<lambda>altitude. temperature_zero + temperature_variation_altitudem * altitude)
      \<longlongrightarrow> compute_temperature altitude_junction) (at_left altitude_junction) \<and>
   288.16 + (- 0.0065) * 11000 = (216.66 :: real) \<and>
   compute_temperature altitude_junction = 216.66 \<and>
   exp (- gravity_zero / (R_air * compute_temperature altitude_junction) *
          (altitude_junction - altitude_junction)) = 1"
proof (intro conjI)
  show "altitude_junction = 11000"
    by (simp add: altitude_junction_def)
  show "isCont compute_temperature altitude_junction"
    by (rule isCont_compute_temperature)
  show "isCont compute_pressure altitude_junction"
    by (rule isCont_compute_pressure)
  show "isCont compute_density altitude_junction"
    by (rule isCont_compute_density)
  show "((\<lambda>altitude. temperature_zero + temperature_variation_altitudem * altitude)
      \<longlongrightarrow> compute_temperature altitude_junction) (at_left altitude_junction)"
    by (auto intro!: tendsto_eq_intros simp: compute_temperature_alt)
  show "288.16 + (- 0.0065) * 11000 = (216.66 :: real)"
    by simp
  show "compute_temperature altitude_junction = 216.66"
    by (simp add: compute_temperature_def temperature_junction_def)
  show "exp (- gravity_zero / (R_air * compute_temperature altitude_junction) *
          (altitude_junction - altitude_junction)) = 1"
    by simp
qed

text \<open>
  C7.  For altitudes \<open>0 \<le> h1 < h2\<close> the pressure and the density at \<open>h2\<close> are strictly
  less than at \<open>h1\<close>.
\<close>

theorem atmosphere_strictly_decreasing:
  assumes "0 \<le> h1" and "h1 < h2"
  shows "compute_pressure h2 < compute_pressure h1 \<and> compute_density h2 < compute_density h1"
proof -
  have "0 < pressure_zero" "0 < density_zero"
    "0 < - gravity_zero / (temperature_variation_altitudem * R_air)"
    "0 < - gravity_zero / (temperature_variation_altitudem * R_air) - 1"
    by (simp_all add: constants_defs)
  then show ?thesis
    using assms(2) layer_profile_decreasing [of pressure_zero _ h1 h2]
      layer_profile_decreasing [of density_zero _ h1 h2]
    by (simp only: compute_pressure_alt compute_density_alt)
qed

theorem atmosphere_strictly_decreasing_witness:
  "(0::real) \<le> 0 \<and> (0::real) < 12000 \<and>
   compute_pressure 12000 < compute_pressure 0 \<and> compute_density 12000 < compute_density 0"
  using atmosphere_strictly_decreasing [of 0 12000] by simp


section \<open>The structure factor, the residual and the solver\<close>

text \<open>
  The constructor raises exactly when one of its two divisors is zero, and the cruise
  speed and the cruise fraction with it.
\<close>

lemma vitesse_eq:
  "vitesse K mach h =
     (if compute_temperature h + sutherlands_constant K = 0 \<or> earth_radius + h = 0
      then Inl ZeroDivisionError
      else Inr (mach * compute_sound_speed h))"
  by (simp add: vitesse_def Atmosphere_def compute_air_viscosity_def compute_gravity_def Let_def)

lemma fcruise_eq:
  "fcruise K M_cruise H_cruise A Range' TSFC =
     (if compute_temperature H_cruise + sutherlands_constant K = 0 \<or> earth_radius + H_cruise = 0
         \<or> M_cruise * compute_sound_speed H_cruise * (0.866 * finesse M_cruise A) * 3600 = 0
      then Inl ZeroDivisionError
      else Inr (1 / exp (Range' * TSFC * 6080 /
                  (M_cruise * compute_sound_speed H_cruise * (0.866 * finesse M_cruise A) * 3600))))"
  by (simp add: fcruise_def vitesse_eq Let_def)

lemma structure_constants_sign:
  "structure_constants s = Inr (a, c) \<Longrightarrow> 0 < a \<and> - 1 < c \<and> c < 0"
  by (auto simp add: structure_constants_def split: if_splits)

lemma structure_constants_frac:
  "structure_constants s = Inr (a, c) \<Longrightarrow> frac c \<noteq> 0"
proof -
  assume "structure_constants s = Inr (a, c)"
  then have "- 1 < c \<and> c < 0" using structure_constants_sign by blast
  then have "\<lfloor>c\<rfloor> = - 1" by linarith
  then show ?thesis using \<open>- 1 < c \<and> c < 0\<close> by (simp add: frac_def)
qed


lemma structure_constants_unknown:
  "s \<notin> set [''glider'', ''powered-glider'', ''indiv-constr'', ''indiv-constr(comp)'',
             ''gen-aviation(1eng)'', ''gen-aviation(2eng)'', ''agricultural-plane'',
             ''turboprop(2eng)'', ''seaplane'', ''training-jet'', ''combat-jet'',
             ''transport-jet'', ''bomber''] \<Longrightarrow> structure_constants s = Inl ValueError"
  by (simp add: structure_constants_def)

lemma structure_factor_pos:
  "structure_constants (lower Type) = Inr (a, c) \<Longrightarrow> 0 < Wto \<Longrightarrow>
   structure_factor Type Wto = Inr (Finite (a * Wto powr c))"
  by (simp add: structure_factor_def np_power_def)

lemma structure_factor_nonpos:
  "structure_constants (lower Type) = Inr (a, c) \<Longrightarrow> Wto \<le> 0 \<Longrightarrow>
   structure_factor Type Wto = Inr NonFinite"
  using structure_constants_sign [of "lower Type" a c] structure_constants_frac [of "lower Type" a c]
  by (simp add: structure_factor_def np_power_def)

lemma fpoids_pos:
  assumes "structure_constants (lower Type) = Inr (a, c)"
    and "fcruise K M_cruise H_cruise A Range' TSFC = Inr fcr"
    and "floiter M_cruise T_loiter TSFC A = Inr fl"
    and "0 < Wto"
  shows "fpoids K Wto Range' Type Wpayload TSFC T_loiter A Fuel_res Fuel_trap M_cruise H_cruise =
     Inr (Finite (1 - (Wpayload / Wto + a * Wto powr c +
                         (1 - 0.975 * fclimb M_cruise) * (1 + fcr * fl))))"
  using assms by (simp add: fpoids_def structure_factor_pos np_true_divide_def)

lemma fpoids_nonpos:
  assumes "structure_constants (lower Type) = Inr (a, c)"
    and "fcruise K M_cruise H_cruise A Range' TSFC = Inr fcr"
    and "floiter M_cruise T_loiter TSFC A = Inr fl"
    and "Wto \<le> 0"
  shows "fpoids K Wto Range' Type Wpayload TSFC T_loiter A Fuel_res Fuel_trap M_cruise H_cruise =
     Inr NonFinite"
  using assms by (simp add: fpoids_def structure_factor_nonpos np_true_divide_def)

lemma fpoids_error_independent:
  "fpoids K Wto Range' Type Wpayload TSFC T_loiter A Fuel_res Fuel_trap M_cruise H_cruise = Inl e \<Longrightarrow>
   fpoids K Wto' Range' Type Wpayload TSFC T_loiter A Fuel_res Fuel_trap M_cruise H_cruise = Inl e"
  by (auto simp add: fpoids_def structure_factor_def Let_def split: sum.splits prod.splits)

lemma iterate_returns:
  assumes "structure_constants (lower Type) = Inr (a, c)"
    and "fcruise K M_cruise H_cruise A flight_range TSFC = Inr fcr"
    and "floiter M_cruise T_loiter TSFC A = Inr fl"
  shows "iterate_take_off_weight K hybrd Type M_cruise H_cruise A TSFC T_loiter Fuel_res Fuel_trap
       Wpayload flight_range =
     (let Wto = hybrd (\<lambda>Wto. fpoids K Wto flight_range Type Wpayload TSFC T_loiter A Fuel_res
                         Fuel_trap M_cruise H_cruise) Wpayload 0.000001;
          Sfactor = np_multiply (Finite a) (np_power Wto c);
          Wempty = np_multiply Sfactor (Finite Wto)
      in Inr (Wto, Wempty, np_subtract (np_subtract (Finite Wto) Wempty) (Finite Wpayload)))"
  using assms
  by (simp add: iterate_take_off_weight_def fsolve_def fpoids_def structure_factor_def Let_def)

lemma iterate_unknown:
  assumes "structure_constants (lower Type) = Inl e"
  shows "iterate_take_off_weight K hybrd Type M_cruise H_cruise A TSFC T_loiter Fuel_res Fuel_trap
       Wpayload flight_range = Inl e"
  using assms
  by (simp add: iterate_take_off_weight_def fsolve_def fpoids_def structure_factor_def Let_def)

text \<open>
  At the cruise altitude \<open>-6371000\<close> the gravity divides by zero: the constructor
  raises, and the solve with it, for every type of the table.
\<close>

lemma fcruise_raises_at_minus_earth_radius:
  "fcruise K M_cruise (- 6371000) A Range' TSFC = Inl ZeroDivisionError"
  by (simp add: fcruise_eq earth_radius_def)

lemma iterate_raises_at_minus_earth_radius:
  assumes "structure_constants (lower Type) = Inr (a, c)"
  shows "iterate_take_off_weight K hybrd Type M_cruise (- 6371000) A TSFC T_loiter Fuel_res
           Fuel_trap Wpayload flight_range = Inl ZeroDivisionError"
  using assms fcruise_raises_at_minus_earth_radius [of K M_cruise A flight_range TSFC]
  by (simp add: iterate_take_off_weight_def fsolve_def fpoids_def structure_factor_def)

lemma fcruise_reference:
  assumes "sutherlands_constant K \<noteq> - 216.66"
  shows "\<exists>fcr. fcruise K 0.82 40000 10 3500 0.45 = Inr fcr \<and> 0 < fcr"
proof -
  have "compute_temperature 40000 + sutherlands_constant K \<noteq> 0"
    using assms by (simp add: compute_temperature_def constants_defs)
  then show ?thesis
    by (simp add: fcruise_eq finesse_def compute_sound_speed_def compute_temperature_def
        constants_defs earth_radius_def)
qed

lemma floiter_reference: "\<exists>fl. floiter 0.82 45 0.45 10 = Inr fl \<and> 0 < fl"
  by (simp add: floiter_def finesse_def Let_def)

section \<open>What the solve returns\<close>

lemma fcruise_pos: "fcruise K M_cruise H_cruise A Range' TSFC = Inr fcr \<Longrightarrow> 0 < fcr"
  by (auto simp add: fcruise_eq split: if_splits)

lemma floiter_pos: "floiter M_cruise T_loiter TSFC A = Inr fl \<Longrightarrow> 0 < fl"
  by (auto simp add: floiter_def Let_def split: if_splits)

lemma fcruise_raises:
  "fcruise K M_cruise H_cruise A Range' TSFC = Inl e \<Longrightarrow> e = ZeroDivisionError"
  by (auto simp add: fcruise_eq split: if_splits)

lemma floiter_raises:
  "floiter M_cruise T_loiter TSFC A = Inl e \<Longrightarrow> e = ZeroDivisionError \<and> finesse M_cruise A * 60 = 0"
  by (auto simp add: floiter_def Let_def split: if_splits)

lemma fpoids_no_root:
  assumes ac: "structure_constants (lower Type) = Inr (a, c)"
    and fcr: "fcruise K M_cruise H_cruise A Range' TSFC = Inr fcr"
    and fl: "floiter M_cruise T_loiter TSFC A = Inr fl"
    and wp: "0 \<le> Wpayload"
    and fc: "fclimb M_cruise \<le> 0"
  shows "fpoids K Wto Range' Type Wpayload TSFC T_loiter A Fuel_res Fuel_trap M_cruise H_cruise
           \<noteq> Inr (Finite 0)"
proof (cases "0 < Wto")
  case False
  then show ?thesis using fpoids_nonpos [OF ac fcr fl, of Wto] by simp
next
  case True
  have a: "0 < a" using ac structure_constants_sign by blast
  have "0 < fcr * fl" using fcruise_pos [OF fcr] floiter_pos [OF fl] by simp
  then have p: "1 < 1 + fcr * fl" by simp
  have "0 \<le> - (0.975 * fclimb M_cruise)" using fc by simp
  then have q: "1 \<le> 1 - 0.975 * fclimb M_cruise" by simp
  have "1 * 1 < (1 - 0.975 * fclimb M_cruise) * (1 + fcr * fl)"
    using q p by (intro mult_le_less_imp_less) simp_all
  then have b: "1 < (1 - 0.975 * fclimb M_cruise) * (1 + fcr * fl)" by simp
  have "0 \<le> Wpayload / Wto" using wp True by simp
  moreover have "0 < a * Wto powr c" using a True by simp
  ultimately have "1 - (Wpayload / Wto + a * Wto powr c +
                         (1 - 0.975 * fclimb M_cruise) * (1 + fcr * fl)) < 0"
    using b by linarith
  then show ?thesis using fpoids_pos [OF ac fcr fl True] by simp
qed

lemma fpoids_root_pos:
  assumes "fpoids K Wto Range' Type Wpayload TSFC T_loiter A Fuel_res Fuel_trap M_cruise H_cruise
           = Inr (Finite r)"
  shows "0 < Wto"
proof (rule ccontr)
  assume "\<not> 0 < Wto"
  then have n: "Wto \<le> 0" by simp
  from assms obtain a c where ac: "structure_constants (lower Type) = Inr (a, c)"
    by (cases "structure_constants (lower Type)") (auto simp add: fpoids_def structure_factor_def)
  from assms ac obtain fcr where fcr: "fcruise K M_cruise H_cruise A Range' TSFC = Inr fcr"
    by (cases "fcruise K M_cruise H_cruise A Range' TSFC") (auto simp add: fpoids_def structure_factor_def)
  from assms ac fcr obtain fl where fl: "floiter M_cruise T_loiter TSFC A = Inr fl"
    by (cases "floiter M_cruise T_loiter TSFC A") (auto simp add: fpoids_def structure_factor_def)
  from fpoids_nonpos [OF ac fcr fl n] assms show False by simp
qed

lemma iterate_returns_cases:
  assumes "iterate_take_off_weight K hybrd Type M_cruise H_cruise A TSFC T_loiter Fuel_res Fuel_trap
       Wpayload flight_range = Inr r"
  obtains a c fcr fl where "structure_constants (lower Type) = Inr (a, c)"
    and "fcruise K M_cruise H_cruise A flight_range TSFC = Inr fcr"
    and "floiter M_cruise T_loiter TSFC A = Inr fl"
proof -
  from assms obtain a c where ac: "structure_constants (lower Type) = Inr (a, c)"
    by (cases "structure_constants (lower Type)") (auto simp add: iterate_unknown)
  from assms ac obtain fcr where fcr: "fcruise K M_cruise H_cruise A flight_range TSFC = Inr fcr"
    by (cases "fcruise K M_cruise H_cruise A flight_range TSFC")
      (auto simp add: iterate_take_off_weight_def fsolve_def fpoids_def structure_factor_def)
  from assms ac fcr obtain fl where fl: "floiter M_cruise T_loiter TSFC A = Inr fl"
    by (cases "floiter M_cruise T_loiter TSFC A")
      (auto simp add: iterate_take_off_weight_def fsolve_def fpoids_def structure_factor_def)
  from ac fcr fl that show thesis by blast
qed

lemma mach40_fcruise:
  assumes "sutherlands_constant K \<noteq> - 216.66"
  shows "\<exists>fcr. fcruise K 40 40000 10 3500 0.45 = Inr fcr"
proof -
  have "compute_temperature 40000 + sutherlands_constant K \<noteq> 0"
    using assms by (simp add: compute_temperature_def constants_defs)
  then show ?thesis
    by (simp add: fcruise_eq finesse_def compute_sound_speed_def compute_temperature_def
        constants_defs earth_radius_def)
qed

lemma mach40_floiter: "\<exists>fl. floiter 40 45 0.45 10 = Inr fl"
  by (simp add: floiter_def finesse_def Let_def)

lemma lower_transport_jet: "lower ''transport-jet'' = ''transport-jet''"
  by (simp add: lower_def lower_char_def)

lemma constants_transport_jet: "structure_constants (lower ''transport-jet'') = Inr (1.02, - 0.06)"
  by (simp add: lower_transport_jet structure_constants_def)

lemma constants_combat_jet: "structure_constants (lower ''combat-jet'') = Inr (2.34, - 0.13)"
  by (simp add: lower_def lower_char_def structure_constants_def)

lemma iterate_returns_iff:
  assumes "structure_constants (lower Type) = Inr (a, c)"
    and "fcruise K M_cruise H_cruise A flight_range TSFC = Inr fcr"
    and "floiter M_cruise T_loiter TSFC A = Inr fl"
  shows "iterate_take_off_weight K hybrd Type M_cruise H_cruise A TSFC T_loiter Fuel_res Fuel_trap
       Wpayload flight_range = Inr (Wto, Wempty, Wfuel) \<longleftrightarrow>
     Wto = hybrd (\<lambda>Wto. fpoids K Wto flight_range Type Wpayload TSFC T_loiter A Fuel_res
                         Fuel_trap M_cruise H_cruise) Wpayload 0.000001 \<and>
     Wempty = np_multiply (np_multiply (Finite a) (np_power Wto c)) (Finite Wto) \<and>
     Wfuel = np_subtract (np_subtract (Finite Wto)
                (np_multiply (np_multiply (Finite a) (np_power Wto c)) (Finite Wto)))
              (Finite Wpayload)"
  by (auto simp add: iterate_returns [OF assms] Let_def)

lemma breakdown_nonpos:
  assumes ac: "structure_constants (lower Type) = Inr (a, c)"
    and fcr: "fcruise K M_cruise H_cruise A flight_range TSFC = Inr fcr"
    and fl: "floiter M_cruise T_loiter TSFC A = Inr fl"
    and r: "iterate_take_off_weight K hybrd Type M_cruise H_cruise A TSFC T_loiter Fuel_res Fuel_trap
       Wpayload flight_range = Inr (Wto, Wempty, Wfuel)"
    and n: "Wto \<le> 0"
  shows "Wempty = NonFinite \<and> Wfuel = NonFinite"
proof -
  have "np_power Wto c = NonFinite"
    using n structure_constants_sign [OF ac] structure_constants_frac [OF ac]
    by (simp add: np_power_def)
  then show ?thesis
    using r iterate_returns_iff [OF ac fcr fl, of hybrd Fuel_res Fuel_trap Wpayload Wto Wempty Wfuel]
    by simp
qed

text \<open>
  C1 (as amended).  When the solve returns, the returned \<open>Wto\<close> is the final iterate
  that the root-finder gives for the residual \<open>fpoids\<close>, started from the payload
  weight with \<open>xtol = 1e-6\<close>, and at every positive weight the residual is
  \<open>1 - (Wpayload / Wto + structure_factor + (1 - 0.975 * fclimb) * (1 + fcruise * floiter))\<close>.
  The solve does not test the residual at the returned weight: it is a root when the
  root-finder has converged, and only then.
\<close>

theorem solve_result_is_final_iterate:
  assumes "iterate_take_off_weight K hybrd Type M_cruise H_cruise A TSFC T_loiter Fuel_res Fuel_trap
       Wpayload flight_range = Inr (Wto, Wempty, Wfuel)"
  shows "Wto = hybrd (\<lambda>Wto. fpoids K Wto flight_range Type Wpayload TSFC T_loiter A Fuel_res
                         Fuel_trap M_cruise H_cruise) Wpayload 0.000001 \<and>
         (\<exists>fcr fl. fcruise K M_cruise H_cruise A flight_range TSFC = Inr fcr \<and>
            floiter M_cruise T_loiter TSFC A = Inr fl \<and>
            (\<forall>W. 0 < W \<longrightarrow>
               (\<exists>sf. structure_factor Type W = Inr (Finite sf) \<and>
                  fpoids K W flight_range Type Wpayload TSFC T_loiter A Fuel_res Fuel_trap
                    M_cruise H_cruise =
                  Inr (Finite (1 - (Wpayload / W + sf +
                         (1 - 0.975 * fclimb M_cruise) * (1 + fcr * fl)))))))"
proof -
  from assms obtain a c fcr fl where ac: "structure_constants (lower Type) = Inr (a, c)"
    and fcr: "fcruise K M_cruise H_cruise A flight_range TSFC = Inr fcr"
    and fl: "floiter M_cruise T_loiter TSFC A = Inr fl"
    by (rule iterate_returns_cases)
  from assms have "Wto = hybrd (\<lambda>Wto. fpoids K Wto flight_range Type Wpayload TSFC T_loiter A Fuel_res
                         Fuel_trap M_cruise H_cruise) Wpayload 0.000001"
    by (simp add: iterate_returns [OF ac fcr fl] Let_def)
  moreover have "\<exists>sf. structure_factor Type W = Inr (Finite sf) \<and>
                  fpoids K W flight_range Type Wpayload TSFC T_loiter A Fuel_res Fuel_trap
                    M_cruise H_cruise =
                  Inr (Finite (1 - (Wpayload / W + sf +
                         (1 - 0.975 * fclimb M_cruise) * (1 + fcr * fl))))" if "0 < W" for W
    using structure_factor_pos [OF ac that] fpoids_pos [OF ac fcr fl that] by simp
  ultimately show ?thesis using fcr fl by blast
qed

theorem solve_result_is_final_iterate_witness:
  "iterate_take_off_weight \<lparr>viscosity_zero = 0.0000179, sutherlands_constant = 110.4\<rparr> (\<lambda>func x0 xtol. x0) ''transport-jet'' 0.82 40000 10 0.45 45 0.05 0.01
       30750 3500 =
     Inr (30750, Finite (1.02 * 30750 powr (- 0.06) * 30750),
          Finite (30750 - 1.02 * 30750 powr (- 0.06) * 30750 - 30750)) \<and>
   (\<exists>fcr fl. fcruise \<lparr>viscosity_zero = 0.0000179, sutherlands_constant = 110.4\<rparr> 0.82 40000 10 3500 0.45 = Inr fcr \<and> floiter 0.82 45 0.45 10 = Inr fl \<and>
      (\<forall>W. 0 < W \<longrightarrow>
         (\<exists>sf. structure_factor ''transport-jet'' W = Inr (Finite sf) \<and>
            fpoids \<lparr>viscosity_zero = 0.0000179, sutherlands_constant = 110.4\<rparr> W 3500 ''transport-jet'' 30750 0.45 45 10 0.05 0.01 0.82 40000 =
              Inr (Finite (1 - (30750 / W + sf + (1 - 0.975 * fclimb 0.82) * (1 + fcr * fl)))))))"
proof -
  obtain fcr where fcr: "fcruise \<lparr>viscosity_zero = 0.0000179, sutherlands_constant = 110.4\<rparr> 0.82 40000 10 3500 0.45 = Inr fcr"
    using fcruise_reference [of "\<lparr>viscosity_zero = 0.0000179, sutherlands_constant = 110.4\<rparr>"] by auto
  obtain fl where fl: "floiter 0.82 45 0.45 10 = Inr fl"
    using floiter_reference by blast
  have r: "iterate_take_off_weight \<lparr>viscosity_zero = 0.0000179, sutherlands_constant = 110.4\<rparr> (\<lambda>func x0 xtol. x0) ''transport-jet'' 0.82 40000 10 0.45 45 0.05 0.01
       30750 3500 =
     Inr (30750, Finite (1.02 * 30750 powr (- 0.06) * 30750),
          Finite (30750 - 1.02 * 30750 powr (- 0.06) * 30750 - 30750))"
    by (subst iterate_returns [OF constants_transport_jet fcr fl]) (simp add: np_power_def Let_def)
  from solve_result_is_final_iterate [OF r] r show ?thesis by blast
qed

text \<open>
  C1 as stated fails.  At cruise Mach 40 \<open>fclimb\<close> is negative, the term
  \<open>(1 - 0.975 * fclimb) * (1 + fcruise * floiter)\<close> exceeds 1 and the residual is
  negative at every positive weight and not finite at the others: it has no root.  The
  solve returns a weight all the same, whatever the root-finder does.  (Here and in the
  closed theorems below the two viscosity constants have sample values; any others for
  which the constructor does not raise at this altitude, that is any Sutherland constant
  but \<open>-216.66\<close>, do as well: lemmas \<open>fcruise_reference\<close> and \<open>mach40_fcruise\<close>.)
\<close>

theorem returned_weight_not_a_root:
  "\<forall>hybrd. \<exists>Wto Wempty Wfuel.
     iterate_take_off_weight \<lparr>viscosity_zero = 0.0000179, sutherlands_constant = 110.4\<rparr> hybrd ''transport-jet'' 40 40000 10 0.45 45 0.05 0.01 30750 3500 =
       Inr (Wto, Wempty, Wfuel) \<and>
     fpoids \<lparr>viscosity_zero = 0.0000179, sutherlands_constant = 110.4\<rparr> Wto 3500 ''transport-jet'' 30750 0.45 45 10 0.05 0.01 40 40000 \<noteq> Inr (Finite 0)"
proof
  fix hybrd :: root_finder
  obtain fcr where fcr: "fcruise \<lparr>viscosity_zero = 0.0000179, sutherlands_constant = 110.4\<rparr> 40 40000 10 3500 0.45 = Inr fcr"
    using mach40_fcruise [of "\<lparr>viscosity_zero = 0.0000179, sutherlands_constant = 110.4\<rparr>"] by auto
  obtain fl where fl: "floiter 40 45 0.45 10 = Inr fl"
    using mach40_floiter by blast
  have "fclimb 40 \<le> 0" by (simp add: fclimb_def)
  then have "fpoids \<lparr>viscosity_zero = 0.0000179, sutherlands_constant = 110.4\<rparr> W 3500 ''transport-jet'' 30750 0.45 45 10 0.05 0.01 40 40000 \<noteq> Inr (Finite 0)" for W
    using fpoids_no_root [OF constants_transport_jet fcr fl, of 30750 W] by simp
  then show "\<exists>Wto Wempty Wfuel.
     iterate_take_off_weight \<lparr>viscosity_zero = 0.0000179, sutherlands_constant = 110.4\<rparr> hybrd ''transport-jet'' 40 40000 10 0.45 45 0.05 0.01 30750 3500 =
       Inr (Wto, Wempty, Wfuel) \<and>
     fpoids \<lparr>viscosity_zero = 0.0000179, sutherlands_constant = 110.4\<rparr> Wto 3500 ''transport-jet'' 30750 0.45 45 10 0.05 0.01 40 40000 \<noteq> Inr (Finite 0)"
    by (subst iterate_returns [OF constants_transport_jet fcr fl]) (simp add: Let_def)
qed

text \<open>
  C2 (as amended).  When the solve returns a positive take-off weight, the structure
  factor at that weight is finite, the empty weight is that factor times the take-off
  weight, the fuel weight is what remains after the empty weight and the payload, and the
  three add up to the take-off weight (exactly so over the reals, hence within the
  tolerance).  A weight at which the residual is finite, and so every root, is positive
  (lemma \<open>fpoids_root_pos\<close>).
\<close>

theorem weight_breakdown_closes:
  assumes "iterate_take_off_weight K hybrd Type M_cruise H_cruise A TSFC T_loiter Fuel_res Fuel_trap
       Wpayload flight_range = Inr (Wto, Wempty, Wfuel)"
    and "0 < Wto"
  shows "\<exists>Sfactor e f. structure_factor Type Wto = Inr (Finite Sfactor) \<and>
           Wempty = Finite e \<and> Wfuel = Finite f \<and>
           e = Sfactor * Wto \<and> f = Wto - e - Wpayload \<and>
           \<bar>Wto - (e + f + Wpayload)\<bar> < 0.000001"
proof -
  from assms(1) obtain a c fcr fl where ac: "structure_constants (lower Type) = Inr (a, c)"
    and fcr: "fcruise K M_cruise H_cruise A flight_range TSFC = Inr fcr"
    and fl: "floiter M_cruise T_loiter TSFC A = Inr fl"
    by (rule iterate_returns_cases)
  from assms(1) have
    e: "Wempty = np_multiply (np_multiply (Finite a) (np_power Wto c)) (Finite Wto)"
    and f: "Wfuel = np_subtract (np_subtract (Finite Wto)
                (np_multiply (np_multiply (Finite a) (np_power Wto c)) (Finite Wto)))
              (Finite Wpayload)"
    using iterate_returns_iff [OF ac fcr fl] by blast+
  have p: "np_power Wto c = Finite (Wto powr c)"
    using assms(2) by (simp add: np_power_def)
  have "structure_factor Type Wto = Inr (Finite (a * Wto powr c))"
    using ac assms(2) by (rule structure_factor_pos)
  moreover have "Wempty = Finite (a * Wto powr c * Wto)"
    using e p by simp
  moreover have "Wfuel = Finite (Wto - a * Wto powr c * Wto - Wpayload)"
    using f p by simp
  ultimately show ?thesis by simp
qed

theorem weight_breakdown_closes_witness:
  "iterate_take_off_weight \<lparr>viscosity_zero = 0.0000179, sutherlands_constant = 110.4\<rparr> (\<lambda>func x0 xtol. x0) ''transport-jet'' 0.82 40000 10 0.45 45 0.05 0.01
       30750 3500 =
     Inr (30750, Finite (1.02 * 30750 powr (- 0.06) * 30750),
          Finite (30750 - 1.02 * 30750 powr (- 0.06) * 30750 - 30750)) \<and> (0::real) < 30750 \<and>
   (\<exists>Sfactor e f. structure_factor ''transport-jet'' 30750 = Inr (Finite Sfactor) \<and>
           Finite (1.02 * 30750 powr (- 0.06) * 30750) = Finite e \<and>
           Finite (30750 - 1.02 * 30750 powr (- 0.06) * 30750 - 30750) = Finite f \<and>
           e = Sfactor * 30750 \<and> f = 30750 - e - 30750 \<and>
           \<bar>30750 - (e + f + 30750)\<bar> < 0.000001)"
proof -
  obtain fcr where fcr: "fcruise \<lparr>viscosity_zero = 0.0000179, sutherlands_constant = 110.4\<rparr> 0.82 40000 10 3500 0.45 = Inr fcr"
    using fcruise_reference [of "\<lparr>viscosity_zero = 0.0000179, sutherlands_constant = 110.4\<rparr>"] by auto
  obtain fl where fl: "floiter 0.82 45 0.45 10 = Inr fl"
    using floiter_reference by blast
  have r: "iterate_take_off_weight \<lparr>viscosity_zero = 0.0000179, sutherlands_constant = 110.4\<rparr> (\<lambda>func x0 xtol. x0) ''transport-jet'' 0.82 40000 10 0.45 45 0.05 0.01
       30750 3500 =
     Inr (30750, Finite (1.02 * 30750 powr (- 0.06) * 30750),
          Finite (30750 - 1.02 * 30750 powr (- 0.06) * 30750 - 30750))"
    by (subst iterate_returns [OF constants_transport_jet fcr fl]) (simp add: np_power_def Let_def)
  have p: "(0::real) < 30750" by simp
  from weight_breakdown_closes [OF r p] r p show ?thesis by blast
qed

text \<open>
  C2 as stated fails.  With payload 0 the root-finder is started at 0, where the
  residual is not finite.  A root-finder that accepts only steps that lower the norm of
  the residual accepts none from there and hands back the initial guess; the structure
  factor at 0 is \<open>inf\<close>, and the empty and fuel weights are \<open>nan\<close>: the solve
  returns a result whose parts do not add up.  So it is for every final iterate that is
  not positive (lemma \<open>breakdown_nonpos\<close>).
\<close>

theorem breakdown_not_finite_at_zero:
  "fpoids \<lparr>viscosity_zero = 0.0000179, sutherlands_constant = 110.4\<rparr> 0 3500 ''transport-jet'' 0 0.45 45 10 0.05 0.01 0.82 40000 = Inr NonFinite \<and>
   iterate_take_off_weight \<lparr>viscosity_zero = 0.0000179, sutherlands_constant = 110.4\<rparr> (\<lambda>func x0 xtol. x0) ''transport-jet'' 0.82 40000 10 0.45 45 0.05 0.01
       0 3500 = Inr (0, NonFinite, NonFinite)"
proof -
  obtain fcr where fcr: "fcruise \<lparr>viscosity_zero = 0.0000179, sutherlands_constant = 110.4\<rparr> 0.82 40000 10 3500 0.45 = Inr fcr"
    using fcruise_reference [of "\<lparr>viscosity_zero = 0.0000179, sutherlands_constant = 110.4\<rparr>"] by auto
  obtain fl where fl: "floiter 0.82 45 0.45 10 = Inr fl"
    using floiter_reference by blast
  have "fpoids \<lparr>viscosity_zero = 0.0000179, sutherlands_constant = 110.4\<rparr> 0 3500 ''transport-jet'' 0 0.45 45 10 0.05 0.01 0.82 40000 = Inr NonFinite"
    using fpoids_nonpos [OF constants_transport_jet fcr fl, of 0] by simp
  moreover have "iterate_take_off_weight \<lparr>viscosity_zero = 0.0000179, sutherlands_constant = 110.4\<rparr> (\<lambda>func x0 xtol. x0) ''transport-jet'' 0.82 40000 10
       0.45 45 0.05 0.01 0 3500 = Inr (0, NonFinite, NonFinite)"
    by (subst iterate_returns [OF constants_transport_jet fcr fl]) (simp add: np_power_def Let_def)
  ultimately show ?thesis by simp
qed

text \<open>
  C3 (as amended).  The solve has no test of convergence, sign or finiteness.  It raises
  \<open>ValueError\<close> for a type that is not in the table; for a type of the table it raises
  \<open>ZeroDivisionError\<close> when a divisor is zero: in the \<open>Atmosphere\<close> constructor the
  temperature plus Sutherland's constant or the earth radius plus the cruise altitude,
  in the fractions the divisor of the cruise or of the loiter exponent.  It raises
  nothing else, and in every other case it returns the final iterate of the
  root-finder, whatever it is, with the weights derived from it.
\<close>

theorem solve_outcome:
  "iterate_take_off_weight K hybrd Type M_cruise H_cruise A TSFC T_loiter Fuel_res Fuel_trap
       Wpayload flight_range =
     (case structure_constants (lower Type) of
        Inl e \<Rightarrow> Inl ValueError
      | Inr (a, c) \<Rightarrow>
          if compute_temperature H_cruise + sutherlands_constant K = 0
             \<or> earth_radius + H_cruise = 0
             \<or> M_cruise * compute_sound_speed H_cruise * (0.866 * finesse M_cruise A) * 3600 = 0
             \<or> finesse M_cruise A * 60 = 0
          then Inl ZeroDivisionError
          else (let Wto = hybrd (\<lambda>Wto. fpoids K Wto flight_range Type Wpayload TSFC T_loiter A
                                   Fuel_res Fuel_trap M_cruise H_cruise) Wpayload 0.000001;
                    Sfactor = np_multiply (Finite a) (np_power Wto c);
                    Wempty = np_multiply Sfactor (Finite Wto)
                in Inr (Wto, Wempty,
                        np_subtract (np_subtract (Finite Wto) Wempty) (Finite Wpayload))))"
proof (cases "structure_constants (lower Type)")
  case (Inl e)
  then have "e = ValueError"
    by (auto simp add: structure_constants_def split: if_splits)
  with Inl show ?thesis by (simp add: iterate_unknown)
next
  case (Inr p)
  obtain a c where p: "p = (a, c)" by (cases p)
  with Inr have ac: "structure_constants (lower Type) = Inr (a, c)" by simp
  show ?thesis
  proof (cases "fcruise K M_cruise H_cruise A flight_range TSFC")
    case (Inl e)
    then have d: "compute_temperature H_cruise + sutherlands_constant K = 0
             \<or> earth_radius + H_cruise = 0
             \<or> M_cruise * compute_sound_speed H_cruise * (0.866 * finesse M_cruise A) * 3600 = 0"
      by (simp add: fcruise_eq split: if_splits)
    from fcruise_raises [OF Inl] Inl ac
    have "iterate_take_off_weight K hybrd Type M_cruise H_cruise A TSFC T_loiter Fuel_res Fuel_trap
       Wpayload flight_range = Inl ZeroDivisionError"
      by (simp add: iterate_take_off_weight_def fsolve_def fpoids_def structure_factor_def)
    with d ac show ?thesis by auto
  next
    case fcr: (Inr fcr)
    then have d1: "\<not> (compute_temperature H_cruise + sutherlands_constant K = 0
             \<or> earth_radius + H_cruise = 0
             \<or> M_cruise * compute_sound_speed H_cruise * (0.866 * finesse M_cruise A) * 3600 = 0)"
      by (simp add: fcruise_eq split: if_splits)
    show ?thesis
    proof (cases "floiter M_cruise T_loiter TSFC A")
      case (Inl e)
      from floiter_raises [OF Inl] Inl ac fcr
      have "iterate_take_off_weight K hybrd Type M_cruise H_cruise A TSFC T_loiter Fuel_res
         Fuel_trap Wpayload flight_range = Inl ZeroDivisionError"
        by (simp add: iterate_take_off_weight_def fsolve_def fpoids_def structure_factor_def)
      with floiter_raises [OF Inl] ac show ?thesis by auto
    next
      case fl: (Inr fl)
      then have d2: "finesse M_cruise A * 60 \<noteq> 0"
        by (auto simp add: floiter_def Let_def split: if_splits)
      show ?thesis
        using d1 d2 by (simp add: iterate_returns [OF ac fcr fl] ac)
    qed
  qed
qed

text \<open>
  C3 as stated fails.  For the combat jet at cruise Mach 40 the residual has no root, so
  no root-finder can have converged; the solve returns a weight for every root-finder,
  and no error.
\<close>

theorem returns_without_convergence:
  "\<forall>hybrd.
     (\<forall>Wto. fpoids \<lparr>viscosity_zero = 0.0000179, sutherlands_constant = 110.4\<rparr> Wto 3500 ''combat-jet'' 30750 0.45 45 10 0.05 0.01 40 40000 \<noteq> Inr (Finite 0)) \<and>
     (\<exists>Wto Wempty Wfuel.
        iterate_take_off_weight \<lparr>viscosity_zero = 0.0000179, sutherlands_constant = 110.4\<rparr> hybrd ''combat-jet'' 40 40000 10 0.45 45 0.05 0.01 30750 3500 =
          Inr (Wto, Wempty, Wfuel))"
proof
  fix hybrd :: root_finder
  obtain fcr where fcr: "fcruise \<lparr>viscosity_zero = 0.0000179, sutherlands_constant = 110.4\<rparr> 40 40000 10 3500 0.45 = Inr fcr"
    using mach40_fcruise [of "\<lparr>viscosity_zero = 0.0000179, sutherlands_constant = 110.4\<rparr>"] by auto
  obtain fl where fl: "floiter 40 45 0.45 10 = Inr fl"
    using mach40_floiter by blast
  have "fclimb 40 \<le> 0" by (simp add: fclimb_def)
  then have "fpoids \<lparr>viscosity_zero = 0.0000179, sutherlands_constant = 110.4\<rparr> W 3500 ''combat-jet'' 30750 0.45 45 10 0.05 0.01 40 40000 \<noteq> Inr (Finite 0)" for W
    using fpoids_no_root [OF constants_combat_jet fcr fl, of 30750 W] by simp
  moreover have "\<exists>Wto Wempty Wfuel.
        iterate_take_off_weight \<lparr>viscosity_zero = 0.0000179, sutherlands_constant = 110.4\<rparr> hybrd ''combat-jet'' 40 40000 10 0.45 45 0.05 0.01 30750 3500 =
          Inr (Wto, Wempty, Wfuel)"
    by (subst iterate_returns [OF constants_combat_jet fcr fl]) (simp add: Let_def)
  ultimately show "(\<forall>Wto. fpoids \<lparr>viscosity_zero = 0.0000179, sutherlands_constant = 110.4\<rparr> Wto 3500 ''combat-jet'' 30750 0.45 45 10 0.05 0.01 40 40000 \<noteq> Inr (Finite 0)) \<and>
     (\<exists>Wto Wempty Wfuel.
        iterate_take_off_weight \<lparr>viscosity_zero = 0.0000179, sutherlands_constant = 110.4\<rparr> hybrd ''combat-jet'' 40 40000 10 0.45 45 0.05 0.01 30750 3500 =
          Inr (Wto, Wempty, Wfuel))"
    by blast
qed

text \<open>
  C5 (as amended).  With payload 0, on a mission whose type is in the table and whose
  cruise and loiter fractions do not raise (for the cruise fraction this takes in the
  \<open>Atmosphere\<close> constructor it builds), the root-finder is started at \<open>Wto = 0\<close>,
  where the residual is not finite; at every positive weight the residual is finite and
  has no payload term; and the solve raises nothing and returns the final iterate of the
  root-finder.  When the fractions do not raise is lemma \<open>fcruise_eq\<close> and the
  definition of \<open>floiter\<close>.
\<close>

theorem zero_payload_residual:
  assumes ac: "structure_constants (lower Type) = Inr (a, c)"
    and fcr: "fcruise K M_cruise H_cruise A flight_range TSFC = Inr fcr"
    and fl: "floiter M_cruise T_loiter TSFC A = Inr fl"
  shows "fpoids K 0 flight_range Type 0 TSFC T_loiter A Fuel_res Fuel_trap M_cruise H_cruise
           = Inr NonFinite \<and>
         (\<forall>Wto. 0 < Wto \<longrightarrow>
            fpoids K Wto flight_range Type 0 TSFC T_loiter A Fuel_res Fuel_trap M_cruise H_cruise
              = Inr (Finite (1 - (a * Wto powr c +
                                    (1 - 0.975 * fclimb M_cruise) * (1 + fcr * fl))))) \<and>
         (\<exists>Wempty Wfuel.
            iterate_take_off_weight K hybrd Type M_cruise H_cruise A TSFC T_loiter Fuel_res Fuel_trap
              0 flight_range =
            Inr (hybrd (\<lambda>Wto. fpoids K Wto flight_range Type 0 TSFC T_loiter A Fuel_res Fuel_trap
                          M_cruise H_cruise) 0 0.000001, Wempty, Wfuel))"
proof (intro conjI allI impI)
  show "fpoids K 0 flight_range Type 0 TSFC T_loiter A Fuel_res Fuel_trap M_cruise H_cruise
           = Inr NonFinite"
    using fpoids_nonpos [OF ac fcr fl, of 0] by simp
next
  fix Wto :: real
  assume "0 < Wto"
  from fpoids_pos [OF ac fcr fl this, of 0]
  show "fpoids K Wto flight_range Type 0 TSFC T_loiter A Fuel_res Fuel_trap M_cruise H_cruise
              = Inr (Finite (1 - (a * Wto powr c +
                                    (1 - 0.975 * fclimb M_cruise) * (1 + fcr * fl))))"
    by simp
next
  show "\<exists>Wempty Wfuel.
            iterate_take_off_weight K hybrd Type M_cruise H_cruise A TSFC T_loiter Fuel_res Fuel_trap
              0 flight_range =
            Inr (hybrd (\<lambda>Wto. fpoids K Wto flight_range Type 0 TSFC T_loiter A Fuel_res Fuel_trap
                          M_cruise H_cruise) 0 0.000001, Wempty, Wfuel)"
    by (simp add: iterate_returns [OF ac fcr fl] Let_def)
qed

theorem zero_payload_residual_witness:
  "fpoids \<lparr>viscosity_zero = 0.0000179, sutherlands_constant = 110.4\<rparr> 0 3500 ''transport-jet'' 0 0.45 45 10 0.05 0.01 0.82 40000 = Inr NonFinite \<and>
   (\<exists>Wempty Wfuel.
      iterate_take_off_weight \<lparr>viscosity_zero = 0.0000179, sutherlands_constant = 110.4\<rparr> (\<lambda>func x0 xtol. x0) ''transport-jet'' 0.82 40000 10 0.45 45 0.05 0.01
        0 3500 = Inr (0, Wempty, Wfuel))"
proof -
  obtain fcr where fcr: "fcruise \<lparr>viscosity_zero = 0.0000179, sutherlands_constant = 110.4\<rparr> 0.82 40000 10 3500 0.45 = Inr fcr"
    using fcruise_reference [of "\<lparr>viscosity_zero = 0.0000179, sutherlands_constant = 110.4\<rparr>"] by auto
  obtain fl where fl: "floiter 0.82 45 0.45 10 = Inr fl"
    using floiter_reference by blast
  from zero_payload_residual [OF constants_transport_jet fcr fl, of "0.05" "0.01" "\<lambda>func x0 xtol. x0"]
  show ?thesis by blast
qed

text \<open>
  C5 as stated fails.  For the reference mission with payload 0, the first evaluation of
  the residual, at the initial guess \<open>Wto = Wpayload = 0\<close>, divides 0 by 0 and raises 0
  to the power \<open>-0.06\<close>.
\<close>

theorem zero_payload_first_evaluation:
  "np_true_divide 0 0 = NonFinite \<and> np_power 0 (- 0.06) = NonFinite \<and>
   structure_factor ''transport-jet'' 0 = Inr NonFinite \<and>
   fpoids \<lparr>viscosity_zero = 0.0000179, sutherlands_constant = 110.4\<rparr> 0 3500 ''transport-jet'' 0 0.45 45 10 0.05 0.01 0.82 40000 = Inr NonFinite"
proof -
  obtain fcr where fcr: "fcruise \<lparr>viscosity_zero = 0.0000179, sutherlands_constant = 110.4\<rparr> 0.82 40000 10 3500 0.45 = Inr fcr"
    using fcruise_reference [of "\<lparr>viscosity_zero = 0.0000179, sutherlands_constant = 110.4\<rparr>"] by auto
  obtain fl where fl: "floiter 0.82 45 0.45 10 = Inr fl"
    using floiter_reference by blast
  have "fpoids \<lparr>viscosity_zero = 0.0000179, sutherlands_constant = 110.4\<rparr> 0 3500 ''transport-jet'' 0 0.45 45 10 0.05 0.01 0.82 40000 = Inr NonFinite"
    using fpoids_nonpos [OF constants_transport_jet fcr fl, of 0] by simp
  moreover have "structure_factor ''transport-jet'' 0 = Inr NonFinite"
    using structure_factor_nonpos [OF constants_transport_jet, of 0] by simp
  ultimately show ?thesis
    by (simp add: np_true_divide_def np_power_def)
qed



text \<open>
  C4.  A type whose lowered name is not one of the 13 names of the table makes
  \<open>structure_factor\<close> raise \<open>ValueError\<close> at every weight, never a default fraction;
  the solve then fails with that error at the evaluation of the residual at the initial
  guess, whatever the iteration of the root-finder would do.
\<close>

theorem unknown_type_raises:
  assumes "lower Type \<notin> set [''glider'', ''powered-glider'', ''indiv-constr'', ''indiv-constr(comp)'',
             ''gen-aviation(1eng)'', ''gen-aviation(2eng)'', ''agricultural-plane'',
             ''turboprop(2eng)'', ''seaplane'', ''training-jet'', ''combat-jet'',
             ''transport-jet'', ''bomber'']"
  shows "structure_factor Type Wto = Inl ValueError \<and>
         fsolve hybrd (\<lambda>Wto. fpoids K Wto flight_range Type Wpayload TSFC T_loiter A Fuel_res
                         Fuel_trap M_cruise H_cruise) Wpayload 0.000001 = Inl ValueError \<and>
         iterate_take_off_weight K hybrd Type M_cruise H_cruise A TSFC T_loiter Fuel_res Fuel_trap
           Wpayload flight_range = Inl ValueError"
proof -
  have u: "structure_constants (lower Type) = Inl ValueError"
    using assms by (rule structure_constants_unknown)
  then have "structure_factor Type w = Inl ValueError" for w
    by (simp add: structure_factor_def)
  then show ?thesis
    using u by (simp add: iterate_unknown fsolve_def fpoids_def)
qed

theorem unknown_type_raises_witness:
  "lower ''biplane-unknown'' \<notin> set [''glider'', ''powered-glider'', ''indiv-constr'', ''indiv-constr(comp)'',
             ''gen-aviation(1eng)'', ''gen-aviation(2eng)'', ''agricultural-plane'',
             ''turboprop(2eng)'', ''seaplane'', ''training-jet'', ''combat-jet'',
             ''transport-jet'', ''bomber''] \<and>
   (\<forall>K hybrd. structure_factor ''biplane-unknown'' 30750 = Inl ValueError \<and>
     iterate_take_off_weight K hybrd ''biplane-unknown'' 0.82 40000 10 0.45 45 0.05 0.01 30750 3500
       = Inl ValueError)"
proof -
  have l: "lower ''biplane-unknown'' = ''biplane-unknown''"
    by (simp add: lower_def lower_char_def)
  show ?thesis
    using unknown_type_raises [of "''biplane-unknown''" 30750 _ _ 3500 30750 "0.45" 45 10 "0.05" "0.01" "0.82" 40000]
    unfolding l by simp
qed

text \<open>
  C9.  At or above 11000 the temperature is the junction temperature, the speed of sound
  is \<open>sqrt (1.4 * 286.9 * 216.66)\<close>, and so two cruise altitudes there give the same
  cruise speed, the same cruise fraction and the same result of the solve.  (The
  constructor's divisors do not tell the two altitudes apart either: the one is the same
  for both, the other zero for neither.)
\<close>

theorem stratosphere_altitude_irrelevant:
  assumes "11000 \<le> H1" and "11000 \<le> H2"
  shows "compute_temperature H1 = 216.66 \<and>
         compute_sound_speed H1 = sqrt (1.4 * 286.9 * 216.66) \<and>
         vitesse K M_cruise H1 = vitesse K M_cruise H2 \<and>
         fcruise K M_cruise H1 A flight_range TSFC = fcruise K M_cruise H2 A flight_range TSFC \<and>
         iterate_take_off_weight K hybrd Type M_cruise H1 A TSFC T_loiter Fuel_res Fuel_trap
           Wpayload flight_range =
         iterate_take_off_weight K hybrd Type M_cruise H2 A TSFC T_loiter Fuel_res Fuel_trap
           Wpayload flight_range"
proof -
  have t: "compute_temperature H1 = 216.66" "compute_temperature H2 = 216.66"
    using assms by (simp_all add: compute_temperature_def altitude_junction_def temperature_junction_def)
  then have s: "compute_sound_speed H1 = sqrt (1.4 * 286.9 * 216.66)"
    "compute_sound_speed H2 = compute_sound_speed H1"
    by (simp_all add: compute_sound_speed_def gamma_air_def R_air_def)
  have r: "earth_radius + H1 \<noteq> 0" "earth_radius + H2 \<noteq> 0"
    using assms by (simp_all add: earth_radius_def)
  have v: "vitesse K M_cruise H2 = vitesse K M_cruise H1"
    by (simp add: vitesse_eq t s r)
  then have c: "fcruise K M_cruise H2 A flight_range TSFC = fcruise K M_cruise H1 A flight_range TSFC"
    by (simp only: fcruise_def)
  then have "fpoids K Wto flight_range Type Wpayload TSFC T_loiter A Fuel_res Fuel_trap M_cruise H2
      = fpoids K Wto flight_range Type Wpayload TSFC T_loiter A Fuel_res Fuel_trap M_cruise H1" for Wto
    by (simp only: fpoids_def)
  then have "iterate_take_off_weight K hybrd Type M_cruise H2 A TSFC T_loiter Fuel_res Fuel_trap
           Wpayload flight_range =
         iterate_take_off_weight K hybrd Type M_cruise H1 A TSFC T_loiter Fuel_res Fuel_trap
           Wpayload flight_range"
    by (simp add: iterate_take_off_weight_def)
  then show ?thesis using t s v c by simp
qed

theorem stratosphere_altitude_irrelevant_witness:
  "(11000::real) \<le> 11000 \<and> (11000::real) \<le> 40000 \<and>
   (\<forall>K hybrd. iterate_take_off_weight K hybrd ''transport-jet'' 0.82 11000 10 0.45 45 0.05 0.01 30750 3500 =
     iterate_take_off_weight K hybrd ''transport-jet'' 0.82 40000 10 0.45 45 0.05 0.01 30750 3500)"
  using stratosphere_altitude_irrelevant [of 11000 40000 _ "0.82" 10 3500 "0.45" _ "''transport-jet''" 45 "0.05" "0.01" 30750]
  by simp

text \<open>
  C10.  Loading either script runs the sample mission with the type \<open>'jet-transport'\<close>,
  which is not in the table (\<open>'transport-jet'\<close> is): \<open>structure_factor\<close> raises
  \<open>ValueError\<close> in the first evaluation of the residual, before \<open>fcruise\<close> is reached,
  and nothing has been printed.
\<close>

theorem demo_load_raises:
  "structure_constants (lower ''jet-transport'') = Inl ValueError \<and>
   structure_constants (lower ''transport-jet'') = Inr (1.02, - 0.06) \<and>
   plane_mass_load hybrd = ([], Some ValueError) \<and>
   Plane_load hybrd = ([], Some ValueError)"
proof -
  have u: "structure_constants (lower ''jet-transport'') = Inl ValueError"
    by (simp add: structure_constants_def lower_def lower_char_def)
  then have "structure_factor ''jet-transport'' w = Inl ValueError" for w
    by (simp add: structure_factor_def)
  then have "plane_mass_load hybrd = ([], Some ValueError)" "Plane_load hybrd = ([], Some ValueError)"
    by (simp_all add: plane_mass_load_def Plane_load_def itertow_def fsolve_def plane_mass_fpoids_def)
  moreover have "structure_constants (lower ''transport-jet'') = Inr (1.02, - 0.06)"
    by (simp add: structure_constants_def lower_def lower_char_def)
  ultimately show ?thesis using u by simp
qed

end
